theory Spec2Isabelle
  imports Main
begin

section \<open>JavaScript values\<close>

text \<open>
  The values that reach the job model: \<open>null\<close>, \<open>undefined\<close>, booleans, numbers,
  strings and plain objects. Numbers are the integers among JavaScript's numbers (no
  fractions, no NaN). An object is the list of its own enumerable properties in the order
  in which JavaScript enumerates them.
\<close>

datatype jsval =
    JNull
  | JUndefined
  | JBool bool
  | JNum int
  | JStr string
  | JObj "(string \<times> jsval) list"

text \<open>The test of \<^verbatim>\<open>if (v)\<close> and \<^verbatim>\<open>!v\<close>.\<close>

fun truthy :: "jsval \<Rightarrow> bool" where
  "truthy JNull = False"
| "truthy JUndefined = False"
| "truthy (JBool b) = b"
| "truthy (JNum n) = (n \<noteq> 0)"
| "truthy (JStr s) = (s \<noteq> [])"
| "truthy (JObj kvs) = True"

text \<open>Decimal digits of a number, as string concatenation and template literals print it.\<close>

definition digit_char :: "nat \<Rightarrow> char" where
  "digit_char d = ''0123456789'' ! d"

fun show_nat :: "nat \<Rightarrow> string" where
  "show_nat n =
     (if n < 10 then [digit_char n] else show_nat (n div 10) @ [digit_char (n mod 10)])"

declare show_nat.simps [simp del]

text \<open>The string a value turns into inside a template literal.\<close>

fun to_string :: "jsval \<Rightarrow> string" where
  "to_string JNull = ''null''"
| "to_string JUndefined = ''undefined''"
| "to_string (JBool b) = (if b then ''true'' else ''false'')"
| "to_string (JNum n) = (if n < 0 then ''-'' @ show_nat (nat (- n)) else show_nat (nat n))"
| "to_string (JStr s) = s"
| "to_string (JObj kvs) = ''[object Object]''"

text \<open>\<^verbatim>\<open>Array.prototype.join\<close> on an array of strings.\<close>

fun join :: "string \<Rightarrow> string list \<Rightarrow> string" where
  "join sep [] = []"
| "join sep [x] = x"
| "join sep (x # y # ys) = x @ sep @ join sep (y # ys)"

text \<open>Reading a property: \<open>undefined\<close> when the value has no such property.\<close>

fun get_prop :: "jsval \<Rightarrow> string \<Rightarrow> jsval" where
  "get_prop (JObj kvs) k = (case map_of kvs k of None \<Rightarrow> JUndefined | Some v \<Rightarrow> v)"
| "get_prop v k = JUndefined"

text \<open>A parameter with a default value takes the default exactly when the argument is \<open>undefined\<close>.\<close>

definition default_param :: "jsval \<Rightarrow> jsval \<Rightarrow> jsval" where
  "default_param d v = (if v = JUndefined then d else v)"

section \<open>Errors, the database driver and effects\<close>

datatype error =
    BadRequestError string
  | NotFoundError string
  | DriverError string

fun is_BadRequest :: "error \<Rightarrow> bool" where
  "is_BadRequest (BadRequestError msg) = True"
| "is_BadRequest e = False"

fun is_NotFound :: "error \<Rightarrow> bool" where
  "is_NotFound (NotFoundError msg) = True"
| "is_NotFound e = False"

record query_result =
  rows :: "jsval list"

text \<open>
  \<^verbatim>\<open>db.query(text, values)\<close> is a black box: it takes the statement and the bound values
  (none when the call passes no second argument) and returns a result or fails.
\<close>

type_synonym db = "string \<Rightarrow> jsval list option \<Rightarrow> error + query_result"

datatype effect =
    Query string "jsval list option"
  | ConsoleLog query_result

section \<open>Job.findAll\<close>

text \<open>The local variables \<^verbatim>\<open>filters\<close>, \<^verbatim>\<open>values\<close> and \<^verbatim>\<open>idx\<close> of \<^verbatim>\<open>Job.findAll\<close>.\<close>

record filter_vars =
  filters :: "string list"
  filter_values :: "jsval list"
  idx :: nat

text \<open>Lines 48 to 65 of \<^verbatim>\<open>models/job.js\<close>: the three conditional pushes.\<close>

definition findAll_build :: "jsval \<Rightarrow> jsval \<Rightarrow> jsval \<Rightarrow> filter_vars" where
  "findAll_build title minSalary hasEquity =
     (let v0 = \<lparr>filters = [], filter_values = [], idx = 1\<rparr>;
          v1 = (if truthy title
                then \<lparr>filters = filters v0 @ [''LOWER(title) LIKE $'' @ show_nat (idx v0)],
                      filter_values = filter_values v0 @ [JStr (''%'' @ to_string title @ ''%'')],
                      idx = idx v0 + 1\<rparr>
                else v0);
          v2 = (if truthy minSalary
                then \<lparr>filters = filters v1 @ [''salary >= $'' @ show_nat (idx v1)],
                      filter_values = filter_values v1 @ [minSalary],
                      idx = idx v1 + 1\<rparr>
                else v1);
          v3 = (if truthy hasEquity
                then \<lparr>filters = filters v2 @ [''equity !=  $'' @ show_nat (idx v2)],
                      filter_values = filter_values v2 @ [JStr ''0''],
                      idx = idx v2 + 1\<rparr>
                else v2)
      in v3)"

text \<open>The two statement texts of \<^verbatim>\<open>Job.findAll\<close>, with the line breaks and indentation of the source.\<close>

definition findAll_filtered_sql :: "string list \<Rightarrow> string" where
  "findAll_filtered_sql fs =
     ''SELECT title,\<newline>'' @
     ''                salary,\<newline>'' @
     ''                equity,\<newline>'' @
     ''                company_handle AS \"companyHandle\"\<newline>'' @
     ''        FROM jobs\<newline>'' @
     ''        WHERE ('' @ join '' AND '' fs @ '')\<newline>'' @
     ''        ORDER BY title''"

definition findAll_plain_sql :: string where
  "findAll_plain_sql =
     ''SELECT title,\<newline>'' @
     ''                salary,\<newline>'' @
     ''                equity,\<newline>'' @
     ''                company_handle AS \"companyHandle\"\<newline>'' @
     ''         FROM jobs\<newline>'' @
     ''         ORDER BY title''"

text \<open>
  \<^verbatim>\<open>Job.findAll\<close>: the rows it returns (or the driver's failure) and the effects it
  performs, in order.
\<close>

definition findAll :: "db \<Rightarrow> jsval \<Rightarrow> jsval \<Rightarrow> jsval \<Rightarrow> (error + jsval list) \<times> effect list" where
  "findAll db title0 minSalary0 hasEquity0 =
     (let title = default_param JNull title0;
          minSalary = default_param JNull minSalary0;
          hasEquity = default_param JNull hasEquity0;
          v = findAll_build title minSalary hasEquity
      in if length (filters v) > 0
         then (let sql = findAll_filtered_sql (filters v);
                   q = Query sql (Some (filter_values v))
               in case db sql (Some (filter_values v)) of
                    Inl e \<Rightarrow> (Inl e, [q])
                  | Inr jobsRes \<Rightarrow> (Inr (rows jobsRes), [q]))
         else (let q = Query findAll_plain_sql None
               in case db findAll_plain_sql None of
                    Inl e \<Rightarrow> (Inl e, [q])
                  | Inr jobsRes \<Rightarrow> (Inr (rows jobsRes), [q, ConsoleLog jobsRes])))"

section \<open>The partial-update builder\<close>

record set_clause =
  setCols :: string
  values_list :: "jsval list"

text \<open>
  Modelled from the spec: the partial-update builder \<^verbatim>\<open>sqlForPartialUpdate\<close> of
  \<^verbatim>\<open>helpers/sql.js\<close> is missing from the sources (only its test and its caller
  \<^verbatim>\<open>Job.update\<close> are there). The definitions of this section follow sections 3 and 4.1
  of the specification: the payload must have at least one key, else the builder fails
  with BadRequest before any text is produced; each key, in the payload's iteration order,
  gives the fragment \<^verbatim>\<open>"<column>"=$<position>\<close>, where the column is the field map's entry
  for the key or the key itself when the map has none, and positions count from 1; the
  fragments are joined with a comma and a space; the values are the payload's values in
  the same order, unchanged.
\<close>

text \<open>
  Modelled from the spec: the payload's keys and values in iteration order. An object
  gives its own properties; a string gives its characters under their indices, as
  JavaScript enumerates them; any other value has none.
\<close>

fun own_entries :: "jsval \<Rightarrow> (string \<times> jsval) list" where
  "own_entries (JObj kvs) = kvs"
| "own_entries (JStr s) = zip (map show_nat [0..<length s]) (map (\<lambda>c. JStr [c]) s)"
| "own_entries v = []"

text \<open>Modelled from the spec: one fragment, for a key at a 1-based position.\<close>

definition set_fragment :: "(string \<rightharpoonup> string) \<Rightarrow> string \<Rightarrow> nat \<Rightarrow> string" where
  "set_fragment jsToSql key pos =
     ''\"'' @ (case jsToSql key of None \<Rightarrow> key | Some col \<Rightarrow> col) @ ''\"=$'' @ show_nat pos"

text \<open>Modelled from the spec: the fragments of the keys, numbered from a first position on.\<close>

fun set_fragments :: "(string \<rightharpoonup> string) \<Rightarrow> nat \<Rightarrow> string list \<Rightarrow> string list" where
  "set_fragments jsToSql pos [] = []"
| "set_fragments jsToSql pos (key # keys) =
     set_fragment jsToSql key pos # set_fragments jsToSql (Suc pos) keys"

text \<open>Modelled from the spec: the builder itself (\<open>buildSetClause\<close> in the specification).\<close>

definition sqlForPartialUpdate :: "jsval \<Rightarrow> (string \<rightharpoonup> string) \<Rightarrow> error + set_clause" where
  "sqlForPartialUpdate dataToUpdate jsToSql =
     (let keys = map fst (own_entries dataToUpdate)
      in if keys = [] then Inl (BadRequestError ''No data provided for update'')
         else Inr \<lparr>setCols = join '', '' (set_fragments jsToSql 1 keys),
                   values_list = map snd (own_entries dataToUpdate)\<rparr>)"

section \<open>Job.update\<close>

text \<open>The field map that \<^verbatim>\<open>Job.update\<close> hands to the builder.\<close>

definition job_jsToSql :: "string \<rightharpoonup> string" where
  "job_jsToSql = [''companyHandle'' \<mapsto> ''company_handle'']"

text \<open>The statement text of \<^verbatim>\<open>Job.update\<close>, with the line breaks and blanks of the source.\<close>

definition update_sql :: "string \<Rightarrow> string \<Rightarrow> string" where
  "update_sql setCols_text idVarIdx =
     ''UPDATE jobs \<newline>'' @
     ''                      SET '' @ setCols_text @ '' \<newline>'' @
     ''                      WHERE id = '' @ idVarIdx @ '' \<newline>'' @
     ''                      RETURNING id,\<newline>'' @
     ''                                title,\<newline>'' @
     ''                                salary,\<newline>'' @
     ''                                equity,\<newline>'' @
     ''                                company_handle AS \"companyHandle\"''"

text \<open>
  Lines 155 to 171 of \<^verbatim>\<open>models/job.js\<close>: what \<^verbatim>\<open>Job.update\<close> does with the clause
  the builder has returned. It numbers the id's placeholder, composes the statement, sends
  it with the id bound last and looks at the first row. The parameter \<^verbatim>\<open>id\<close> is
  written \<open>id_arg\<close>.
\<close>

definition update_statement :: "db \<Rightarrow> jsval \<Rightarrow> set_clause \<Rightarrow> (error + jsval) \<times> effect list" where
  "update_statement db id_arg clause =
     (let idVarIdx = ''$'' @ show_nat (length (values_list clause) + 1);
          querySql = update_sql (setCols clause) idVarIdx;
          bound = values_list clause @ [id_arg];
          q = Query querySql (Some bound)
      in case db querySql (Some bound) of
           Inl e \<Rightarrow> (Inl e, [q])
         | Inr result \<Rightarrow>
             (let job = (case rows result of [] \<Rightarrow> JUndefined | r # rs \<Rightarrow> r)
              in if \<not> truthy job
                 then (Inl (NotFoundError (''No job with id of '' @ to_string id_arg)), [q])
                 else (Inr job, [q])))"

text \<open>
  \<^verbatim>\<open>Job.update\<close>, with the builder it calls as a parameter: the job it returns or the
  error it raises, and the statements it has sent to the driver. Lines 144 to 154 are
  the two guards and the call of the builder, whose failure is passed on.
\<close>

definition update ::
  "(jsval \<Rightarrow> (string \<rightharpoonup> string) \<Rightarrow> error + set_clause) \<Rightarrow> db \<Rightarrow> jsval \<Rightarrow> jsval
     \<Rightarrow> (error + jsval) \<times> effect list" where
  "update builder db id_arg data =
     (if \<not> truthy data then (Inl (BadRequestError ''Data is required''), [])
      else if truthy (get_prop data ''id'') \<or> truthy (get_prop data ''companyHandle'')
      then (Inl (BadRequestError ''Job id and companyHandle can not be changed''), [])
      else
        (case builder data job_jsToSql of
           Inl e \<Rightarrow> (Inl e, [])
         | Inr clause \<Rightarrow> update_statement db id_arg clause))"

section \<open>Vocabulary of the specification\<close>

text \<open>The three filter criteria, in the order the specification fixes.\<close>

datatype criterion = TextContains | NumericThreshold | BooleanFlag

text \<open>The predicate a criterion contributes at a position, as \<^verbatim>\<open>Job.findAll\<close> writes it.\<close>

fun predicate_text :: "criterion \<Rightarrow> nat \<Rightarrow> string" where
  "predicate_text TextContains n = ''LOWER(title) LIKE $'' @ show_nat n"
| "predicate_text NumericThreshold n = ''salary >= $'' @ show_nat n"
| "predicate_text BooleanFlag n = ''equity !=  $'' @ show_nat n"

text \<open>An argument is absent when it is \<open>null\<close> or \<open>undefined\<close>.\<close>

fun is_absent :: "jsval \<Rightarrow> bool" where
  "is_absent JNull = True"
| "is_absent JUndefined = True"
| "is_absent v = False"

text \<open>A criterion that is present and not \<open>false\<close>, in the specification's words.\<close>

fun present_non_false :: "jsval \<Rightarrow> bool" where
  "present_non_false JNull = False"
| "present_non_false JUndefined = False"
| "present_non_false (JBool b) = b"
| "present_non_false v = True"

text \<open>Whether a text occurs inside another.\<close>

fun has_prefix :: "string \<Rightarrow> string \<Rightarrow> bool" where
  "has_prefix [] ys = True"
| "has_prefix (x # xs) [] = False"
| "has_prefix (x # xs) (y # ys) = (x = y \<and> has_prefix xs ys)"

fun contains :: "string \<Rightarrow> string \<Rightarrow> bool" where
  "contains pat [] = (pat = [])"
| "contains pat (c # cs) = (has_prefix pat (c # cs) \<or> contains pat cs)"

section \<open>Properties of the filter construction\<close>

lemma truthy_default_param [simp]: "truthy (default_param JNull v) = truthy v"
  by (cases v) (simp_all add: default_param_def)

text \<open>
  C6. For every value of the title and minimum-salary arguments, a false
  \<^verbatim>\<open>hasEquity\<close> gives the same predicate list, the same bound values, the same
  statement and the same outcome as an absent one (\<open>null\<close>, the default, or
  \<open>undefined\<close>): no predicate is emitted for a false flag.
\<close>

theorem findAll_false_flag_as_absent:
  "findAll_build t m (JBool False) = findAll_build t m JNull
   \<and> findAll_build t m (JBool False) = findAll_build t m JUndefined
   \<and> findAll db t m (JBool False) = findAll db t m JNull
   \<and> findAll db t m (JBool False) = findAll db t m JUndefined"
  by (simp add: findAll_build_def findAll_def default_param_def Let_def)

theorem findAll_false_flag_as_absent_witness:
  "findAll_build (JStr ''2'') (JNum 200000) (JBool False) =
     \<lparr>filters = [''LOWER(title) LIKE $1'', ''salary >= $2''],
      filter_values = [JStr ''%2%'', JNum 200000], idx = 3\<rparr>
   \<and> findAll_build (JStr ''2'') (JNum 200000) JNull =
     \<lparr>filters = [''LOWER(title) LIKE $1'', ''salary >= $2''],
      filter_values = [JStr ''%2%'', JNum 200000], idx = 3\<rparr>"
  using findAll_false_flag_as_absent [of "JStr ''2''" "JNum 200000"]
  by (simp add: findAll_build_def show_nat.simps digit_char_def)

lemma has_prefix_iff: "has_prefix pat s \<longleftrightarrow> (\<exists>post. s = pat @ post)"
  by (induction pat s rule: has_prefix.induct) auto

lemma contains_iff: "contains pat s \<longleftrightarrow> (\<exists>pre post. s = pre @ pat @ post)"
proof (induction s)
  case Nil
  then show ?case by auto
next
  case (Cons c cs)
  show ?case
  proof
    assume "contains pat (c # cs)"
    then consider "has_prefix pat (c # cs)" | "contains pat cs" by auto
    then show "\<exists>pre post. c # cs = pre @ pat @ post"
    proof cases
      case 1
      then obtain post where "c # cs = pat @ post" by (auto simp: has_prefix_iff)
      then have "c # cs = [] @ pat @ post" by simp
      then show ?thesis by blast
    next
      case 2
      then obtain pre post where "cs = pre @ pat @ post" using Cons.IH by auto
      then have "c # cs = (c # pre) @ pat @ post" by simp
      then show ?thesis by blast
    qed
  next
    assume "\<exists>pre post. c # cs = pre @ pat @ post"
    then obtain pre post where eq: "c # cs = pre @ pat @ post" by blast
    show "contains pat (c # cs)"
    proof (cases pre)
      case Nil
      with eq have "has_prefix pat (c # cs)" by (auto simp: has_prefix_iff)
      then show ?thesis by simp
    next
      case (Cons p ps)
      with eq have "cs = ps @ pat @ post" by simp
      then have "contains pat cs" using Cons.IH by blast
      then show ?thesis by simp
    qed
  qed
qed

lemma show_nat_small [simp]:
  "show_nat (Suc 0) = ''1''" "show_nat (Suc (Suc 0)) = ''2''" "show_nat (Suc (Suc (Suc 0))) = ''3''"
  "show_nat 1 = ''1''" "show_nat 2 = ''2''" "show_nat 3 = ''3''"
  by (simp_all add: show_nat.simps digit_char_def)


lemma findAll_build_default [simp]:
  "findAll_build (default_param JNull t) (default_param JNull m) (default_param JNull h) = findAll_build t m h"
  by (cases "t = JUndefined"; cases "m = JUndefined"; cases "h = JUndefined")
    (simp_all add: findAll_build_def default_param_def)

lemma is_absent_not_truthy: "is_absent v \<Longrightarrow> \<not> truthy v"
  by (cases v) simp_all

lemma filters_empty_iff:
  "filters (findAll_build t m h) = [] \<longleftrightarrow> \<not> truthy t \<and> \<not> truthy m \<and> \<not> truthy h"
  by (simp add: findAll_build_def Let_def)

lemma findAll_effects_plain:
  "filters (findAll_build t m h) = [] \<Longrightarrow>
     \<exists>rest. snd (findAll db t m h) = Query findAll_plain_sql None # rest"
  by (simp add: findAll_def Let_def split: sum.splits)

lemma findAll_effects_filtered:
  "filters (findAll_build t m h) \<noteq> [] \<Longrightarrow>
     snd (findAll db t m h) =
       [Query (findAll_filtered_sql (filters (findAll_build t m h)))
          (Some (filter_values (findAll_build t m h)))]"
  by (simp add: findAll_def Let_def split: sum.splits)

lemma filtered_no_empty_group:
  "filters (findAll_build t m h) \<noteq> [] \<Longrightarrow>
     \<not> contains ''WHERE ()'' (findAll_filtered_sql (filters (findAll_build t m h)))"
  by (cases "truthy t"; cases "truthy m"; cases "truthy h")
    (simp_all add: findAll_build_def findAll_filtered_sql_def)

lemma plain_no_empty_group: "\<not> contains ''WHERE ()'' findAll_plain_sql"
  by (simp add: findAll_plain_sql_def)

text \<open>
  The construction as the code performs it. Each guard of \<^verbatim>\<open>Job.findAll\<close> is a
  truthiness test, so the predicates are those of the truthy arguments, in the order
  title, minimum salary, equity flag, numbered from 1.
\<close>

lemma findAll_build_by_truthiness:
  "length (filters (findAll_build t m h)) = length (filter truthy [t, m, h])
   \<and> length (filter_values (findAll_build t m h)) = length (filter truthy [t, m, h])
   \<and> idx (findAll_build t m h) = Suc (length (filter truthy [t, m, h]))
   \<and> filters (findAll_build t m h) =
       map (\<lambda>(c, n). predicate_text c n)
         (zip (map fst (filter (\<lambda>(c, v). truthy v)
                 [(TextContains, t), (NumericThreshold, m), (BooleanFlag, h)]))
              [1 ..< 4])"
  by (simp add: findAll_build_def upt_rec numeral_eq_Suc)

text \<open>
  C2. The claim: for every combination of the three filter arguments the number of
  predicates equals the number of present, non-false criteria, in the fixed order and
  numbered from 1. The code breaks it at a minimum salary of \<open>0\<close> with the other two
  arguments absent: the threshold is present and is not \<open>false\<close>, so one criterion is
  given, yet \<^verbatim>\<open>if (minSalary)\<close> skips it; no predicate and no value are produced and
  the plain statement, without any \<^verbatim>\<open>WHERE\<close>, is sent.
\<close>

theorem findAll_zero_threshold_dropped:
  "filters (findAll_build JNull (JNum 0) JNull) = []
   \<and> filter_values (findAll_build JNull (JNum 0) JNull) = []
   \<and> length (filter present_non_false [JNull, JNum 0, JNull]) = 1
   \<and> length (filters (findAll_build JNull (JNum 0) JNull))
       \<noteq> length (filter present_non_false [JNull, JNum 0, JNull])
   \<and> snd (findAll (\<lambda>sql vs. Inr \<lparr>rows = []\<rparr>) JNull (JNum 0) JNull) =
       [Query findAll_plain_sql None, ConsoleLog \<lparr>rows = []\<rparr>]"
  by (simp add: findAll_build_def findAll_def default_param_def)

text \<open>
  The fragments and bound values as the code writes them, with the position of each
  predicate, and the statement for the title \<open>2\<close> with the minimum salary 200000.
\<close>

lemma findAll_build_fragments:
  "(truthy t \<longrightarrow>
      0 < length (filters (findAll_build t m h))
      \<and> filters (findAll_build t m h) ! 0 = ''LOWER(title) LIKE $1''
      \<and> filter_values (findAll_build t m h) ! 0 = JStr (''%'' @ to_string t @ ''%''))
   \<and> (truthy m \<longrightarrow>
      (let n = length (filter truthy [t]) in
         n < length (filters (findAll_build t m h))
         \<and> filters (findAll_build t m h) ! n = ''salary >= $'' @ show_nat (Suc n)
         \<and> filter_values (findAll_build t m h) ! n = m))
   \<and> (truthy h \<longrightarrow>
      (let n = length (filter truthy [t, m]) in
         n < length (filters (findAll_build t m h))
         \<and> filters (findAll_build t m h) ! n = ''equity !=  $'' @ show_nat (Suc n)
         \<and> filter_values (findAll_build t m h) ! n = JStr ''0''))
   \<and> snd (findAll db (JStr ''2'') (JNum 200000) JUndefined) =
       [Query
          (''SELECT title,\<newline>'' @
           ''                salary,\<newline>'' @
           ''                equity,\<newline>'' @
           ''                company_handle AS \"companyHandle\"\<newline>'' @
           ''        FROM jobs\<newline>'' @
           ''        WHERE (LOWER(title) LIKE $1 AND salary >= $2)\<newline>'' @
           ''        ORDER BY title'')
          (Some [JStr ''%2%'', JNum 200000])]"
proof -
  have build: "findAll_build (JStr ''2'') (JNum 200000) JUndefined =
      \<lparr>filters = [''LOWER(title) LIKE $1'', ''salary >= $2''],
       filter_values = [JStr ''%2%'', JNum 200000], idx = 3\<rparr>"
    by (simp add: findAll_build_def)
  have example: "snd (findAll db (JStr ''2'') (JNum 200000) JUndefined) =
      [Query (findAll_filtered_sql [''LOWER(title) LIKE $1'', ''salary >= $2''])
         (Some [JStr ''%2%'', JNum 200000])]"
    using findAll_effects_filtered [of "JStr ''2''" "JNum 200000" JUndefined db]
    by (simp add: build)
  show ?thesis
    by (simp add: example findAll_filtered_sql_def)
      (simp add: findAll_build_def Let_def nth_append)
qed

text \<open>
  C4. The claim: a present text criterion emits \<^verbatim>\<open>LOWER(title) LIKE $<n>\<close> with the
  pattern between percent signs, a present threshold emits \<^verbatim>\<open>salary >= $<n>\<close> with
  the threshold bound unchanged, and a true flag emits \<^verbatim>\<open>equity != $<n>\<close> with the
  string \<open>0\<close> bound. The code breaks it at a minimum salary of \<open>0\<close> with a true flag and
  no title: the claim gives the predicates \<^verbatim>\<open>salary >= $1\<close> and \<^verbatim>\<open>equity != $2\<close>
  with the values 0 and \<open>0\<close>; the code skips the threshold, as \<^verbatim>\<open>if (minSalary)\<close>
  tests truthiness, and writes the flag's predicate with two blanks before the
  placeholder, where the other two predicates have one; the statement sent holds the
  group \<^verbatim>\<open>(equity !=  $1)\<close> and binds only the string \<open>0\<close>.
\<close>

theorem findAll_zero_threshold_flag_text:
  "filters (findAll_build JNull (JNum 0) (JBool True)) = [''equity !=  $1'']
   \<and> filter_values (findAll_build JNull (JNum 0) (JBool True)) = [JStr ''0'']
   \<and> filters (findAll_build JNull (JNum 0) (JBool True)) \<noteq> [''salary >= $1'', ''equity != $2'']
   \<and> filter_values (findAll_build JNull (JNum 0) (JBool True)) \<noteq> [JNum 0, JStr ''0'']
   \<and> snd (findAll (\<lambda>sql vs. Inr \<lparr>rows = []\<rparr>) JNull (JNum 0) (JBool True)) =
       [Query
          (''SELECT title,\<newline>'' @
           ''                salary,\<newline>'' @
           ''                equity,\<newline>'' @
           ''                company_handle AS \"companyHandle\"\<newline>'' @
           ''        FROM jobs\<newline>'' @
           ''        WHERE (equity !=  $1)\<newline>'' @
           ''        ORDER BY title'')
          (Some [JStr ''0''])]"
proof -
  have build: "findAll_build JNull (JNum 0) (JBool True) =
      \<lparr>filters = [''equity !=  $1''], filter_values = [JStr ''0''], idx = 2\<rparr>"
    by (simp add: findAll_build_def)
  have sent: "snd (findAll (\<lambda>sql vs. Inr \<lparr>rows = []\<rparr>) JNull (JNum 0) (JBool True)) =
      [Query (findAll_filtered_sql [''equity !=  $1'']) (Some [JStr ''0''])]"
    using findAll_effects_filtered [of JNull "JNum 0" "JBool True" "\<lambda>sql vs. Inr \<lparr>rows = []\<rparr>"]
    by (simp add: build)
  show ?thesis
    by (simp add: build sent findAll_filtered_sql_def)
qed

text \<open>
  C5. When all three filter arguments are absent, the predicate list and the value list
  are empty and the statement sent to the driver is the plain one, which holds no
  \<^verbatim>\<open>WHERE\<close> at all; when at least one predicate is produced, the one statement sent
  holds the predicates joined with \<^verbatim>\<open> AND \<close> inside one pair of parentheses after
  \<^verbatim>\<open>WHERE\<close>, with the values bound; and no statement ever holds \<^verbatim>\<open>WHERE ()\<close>.
\<close>

theorem findAll_where_group:
  "(is_absent t \<and> is_absent m \<and> is_absent h \<longrightarrow>
      filters (findAll_build t m h) = []
      \<and> filter_values (findAll_build t m h) = []
      \<and> (\<exists>rest. snd (findAll db t m h) = Query findAll_plain_sql None # rest)
      \<and> \<not> contains ''WHERE'' findAll_plain_sql)
   \<and> (filters (findAll_build t m h) \<noteq> [] \<longrightarrow>
      snd (findAll db t m h) =
        [Query
           (''SELECT title,\<newline>'' @
            ''                salary,\<newline>'' @
            ''                equity,\<newline>'' @
            ''                company_handle AS \"companyHandle\"\<newline>'' @
            ''        FROM jobs\<newline>'' @
            ''        WHERE ('' @ join '' AND '' (filters (findAll_build t m h)) @ '')\<newline>'' @
            ''        ORDER BY title'')
           (Some (filter_values (findAll_build t m h)))])
   \<and> (\<forall>sql vs. Query sql vs \<in> set (snd (findAll db t m h)) \<longrightarrow> \<not> contains ''WHERE ()'' sql)"
proof (intro conjI impI allI)
  assume a: "is_absent t \<and> is_absent m \<and> is_absent h"
  then have none: "\<not> truthy t \<and> \<not> truthy m \<and> \<not> truthy h"
    by (simp add: is_absent_not_truthy)
  then show e: "filters (findAll_build t m h) = []"
    by (simp add: filters_empty_iff)
  from none show "filter_values (findAll_build t m h) = []"
    by (simp add: findAll_build_def)
  from e show "\<exists>rest. snd (findAll db t m h) = Query findAll_plain_sql None # rest"
    by (rule findAll_effects_plain)
  show "\<not> contains ''WHERE'' findAll_plain_sql"
    by (simp add: findAll_plain_sql_def)
next
  assume "filters (findAll_build t m h) \<noteq> []"
  then show "snd (findAll db t m h) =
        [Query
           (''SELECT title,\<newline>'' @
            ''                salary,\<newline>'' @
            ''                equity,\<newline>'' @
            ''                company_handle AS \"companyHandle\"\<newline>'' @
            ''        FROM jobs\<newline>'' @
            ''        WHERE ('' @ join '' AND '' (filters (findAll_build t m h)) @ '')\<newline>'' @
            ''        ORDER BY title'')
           (Some (filter_values (findAll_build t m h)))]"
    by (simp add: findAll_effects_filtered findAll_filtered_sql_def)
next
  fix sql vs
  assume q: "Query sql vs \<in> set (snd (findAll db t m h))"
  show "\<not> contains ''WHERE ()'' sql"
  proof (cases "filters (findAll_build t m h) = []")
    case True
    then obtain rest where r: "snd (findAll db t m h) = Query findAll_plain_sql None # rest"
      using findAll_effects_plain by blast
    from True have "set (snd (findAll db t m h)) \<subseteq> {Query findAll_plain_sql None} \<union> range ConsoleLog"
      by (auto simp: findAll_def Let_def split: sum.splits)
    with q have "sql = findAll_plain_sql" by auto
    then show ?thesis by (simp add: plain_no_empty_group)
  next
    case False
    with q have "sql = findAll_filtered_sql (filters (findAll_build t m h))"
      by (simp add: findAll_effects_filtered)
    with False show ?thesis by (simp add: filtered_no_empty_group)
  qed
qed

theorem findAll_where_group_witness:
  "snd (findAll (\<lambda>sql vs. Inr \<lparr>rows = []\<rparr>) JNull JNull JNull) =
     [Query findAll_plain_sql None, ConsoleLog \<lparr>rows = []\<rparr>]
   \<and> \<not> contains ''WHERE'' findAll_plain_sql
   \<and> snd (findAll (\<lambda>sql vs. Inr \<lparr>rows = []\<rparr>) (JStr ''j'') (JNum 250000) (JBool True)) =
     [Query
        (''SELECT title,\<newline>'' @
         ''                salary,\<newline>'' @
         ''                equity,\<newline>'' @
         ''                company_handle AS \"companyHandle\"\<newline>'' @
         ''        FROM jobs\<newline>'' @
         ''        WHERE (LOWER(title) LIKE $1 AND salary >= $2 AND equity !=  $3)\<newline>'' @
         ''        ORDER BY title'')
        (Some [JStr ''%j%'', JNum 250000, JStr ''0''])]
   \<and> \<not> contains ''WHERE ()''
        (''SELECT title,\<newline>'' @
         ''                salary,\<newline>'' @
         ''                equity,\<newline>'' @
         ''                company_handle AS \"companyHandle\"\<newline>'' @
         ''        FROM jobs\<newline>'' @
         ''        WHERE (LOWER(title) LIKE $1 AND salary >= $2 AND equity !=  $3)\<newline>'' @
         ''        ORDER BY title'')"
proof -
  have b: "findAll_build (JStr ''j'') (JNum 250000) (JBool True) =
      \<lparr>filters = [''LOWER(title) LIKE $1'', ''salary >= $2'', ''equity !=  $3''],
       filter_values = [JStr ''%j%'', JNum 250000, JStr ''0''], idx = 4\<rparr>"
    by (simp add: findAll_build_def)
  have p: "snd (findAll (\<lambda>sql vs. Inr \<lparr>rows = []\<rparr>) JNull JNull JNull) =
     [Query findAll_plain_sql None, ConsoleLog \<lparr>rows = []\<rparr>]"
    by (simp add: findAll_def findAll_build_def default_param_def)
  show ?thesis
    using findAll_where_group [of JNull JNull JNull "\<lambda>sql vs. Inr \<lparr>rows = []\<rparr>"]
      findAll_where_group [of "JStr ''j''" "JNum 250000" "JBool True" "\<lambda>sql vs. Inr \<lparr>rows = []\<rparr>"]
    by (simp add: b p)
qed


section \<open>Properties of the partial-update builder and of Job.update\<close>

lemma length_set_fragments [simp]: "length (set_fragments m pos ks) = length ks"
  by (induction ks arbitrary: pos) simp_all

lemma nth_set_fragments:
  "i < length ks \<Longrightarrow> set_fragments m pos ks ! i = set_fragment m (ks ! i) (pos + i)"
proof (induction ks arbitrary: pos i)
  case Nil
  then show ?case by simp
next
  case (Cons k ks)
  show ?case
  proof (cases i)
    case 0
    then show ?thesis by simp
  next
    case (Suc j)
    with Cons.prems have "j < length ks" by simp
    then have "set_fragments m (Suc pos) ks ! j = set_fragment m (ks ! j) (Suc pos + j)"
      by (rule Cons.IH)
    with Suc show ?thesis by simp
  qed
qed

text \<open>
  C1. For every payload with at least one key and every field map, the builder returns a
  clause that is the join, with a comma and a blank, of exactly as many fragments as the
  payload has keys; the fragment at index \<open>i\<close> is the quoted column of the payload's key at
  index \<open>i\<close>, followed by \<^verbatim>\<open>=$\<close> and the position \<open>i + 1\<close>; the value list has the
  payload's length and its value at index \<open>i\<close> is the value of the payload's key at index
  \<open>i\<close>. The builder is the one modelled from the specification.
\<close>

theorem sqlForPartialUpdate_clause:
  assumes "p \<noteq> []"
  shows "\<exists>frs. sqlForPartialUpdate (JObj p) m = Inr \<lparr>setCols = join '', '' frs, values_list = map snd p\<rparr>
           \<and> length frs = length p
           \<and> (\<forall>i<length p. frs ! i =
                 ''\"'' @ (case m (fst (p ! i)) of None \<Rightarrow> fst (p ! i) | Some col \<Rightarrow> col)
                   @ ''\"=$'' @ show_nat (i + 1))
           \<and> length (map snd p) = length p
           \<and> (\<forall>i<length p. map snd p ! i = snd (p ! i))"
proof (intro exI conjI allI impI)
  show "sqlForPartialUpdate (JObj p) m =
      Inr \<lparr>setCols = join '', '' (set_fragments m 1 (map fst p)), values_list = map snd p\<rparr>"
    using assms by (simp add: sqlForPartialUpdate_def)
  show "length (set_fragments m 1 (map fst p)) = length p" by simp
  show "length (map snd p) = length p" by simp
next
  fix i assume "i < length p"
  then show "set_fragments m 1 (map fst p) ! i =
      ''\"'' @ (case m (fst (p ! i)) of None \<Rightarrow> fst (p ! i) | Some col \<Rightarrow> col)
        @ ''\"=$'' @ show_nat (i + 1)"
    by (simp add: nth_set_fragments set_fragment_def)
next
  fix i assume "i < length p"
  then show "map snd p ! i = snd (p ! i)" by simp
qed

theorem sqlForPartialUpdate_clause_witness:
  "sqlForPartialUpdate
     (JObj [(''numEmployees'', JNum 5), (''description'', JStr ''Description 3'')])
     [''numEmployees'' \<mapsto> ''num_employees'', ''description'' \<mapsto> ''description''] =
   Inr \<lparr>setCols = ''\"num_employees\"=$1, \"description\"=$2'',
        values_list = [JNum 5, JStr ''Description 3'']\<rparr>"
proof -
  let ?p = "[(''numEmployees'', JNum 5), (''description'', JStr ''Description 3'')]"
  let ?m = "[''numEmployees'' \<mapsto> ''num_employees'', ''description'' \<mapsto> ''description'']"
  have ne: "?p \<noteq> []" by simp
  from sqlForPartialUpdate_clause [OF ne, of ?m]
  obtain frs where r: "sqlForPartialUpdate (JObj ?p) ?m = Inr \<lparr>setCols = join '', '' frs, values_list = map snd ?p\<rparr>"
    and len: "length frs = length ?p"
    and frs: "\<forall>i<length ?p. frs ! i =
                 ''\"'' @ (case ?m (fst (?p ! i)) of None \<Rightarrow> fst (?p ! i) | Some col \<Rightarrow> col)
                   @ ''\"=$'' @ show_nat (i + 1)"
    by blast
  from len obtain a b where ab: "frs = [a, b]"
    by (cases frs; cases "tl frs"; cases "tl (tl frs)") auto
  from frs have "frs ! 0 = ''\"num_employees\"=$1''" by simp
  moreover from frs have "frs ! 1 = ''\"description\"=$2''" by simp
  ultimately have "frs = [''\"num_employees\"=$1'', ''\"description\"=$2'']"
    using ab by simp
  with r show ?thesis by simp
qed

text \<open>
  C3. For every field map, the empty map among them, the builder fails with a BadRequest
  error on the empty payload and returns no clause; \<^verbatim>\<open>Job.update\<close> with the empty
  payload raises that BadRequest error and has sent no statement to the driver. The
  builder is the one modelled from the specification.
\<close>

theorem sqlForPartialUpdate_empty_payload:
  "sqlForPartialUpdate (JObj []) m = Inl (BadRequestError ''No data provided for update'')
   \<and> (case sqlForPartialUpdate (JObj []) m of Inl e \<Rightarrow> is_BadRequest e | Inr clause \<Rightarrow> False)
   \<and> (case sqlForPartialUpdate (JObj []) Map.empty of Inl e \<Rightarrow> is_BadRequest e | Inr clause \<Rightarrow> False)
   \<and> (case fst (update sqlForPartialUpdate db id_arg (JObj [])) of
         Inl e \<Rightarrow> is_BadRequest e | Inr job \<Rightarrow> False)
   \<and> snd (update sqlForPartialUpdate db id_arg (JObj [])) = []"
  by (simp add: sqlForPartialUpdate_def update_def)

theorem sqlForPartialUpdate_empty_payload_witness:
  "update sqlForPartialUpdate (\<lambda>sql vs. Inr \<lparr>rows = []\<rparr>) (JNum 1) (JObj []) =
     (Inl (BadRequestError ''No data provided for update''), [])"
  using sqlForPartialUpdate_empty_payload [of job_jsToSql "\<lambda>sql vs. Inr \<lparr>rows = []\<rparr>" "JNum 1"]
  by (simp add: update_def)

text \<open>
  C8. For a payload key that the field map does not hold, the fragment's column is the key
  itself, between the same double quotes and followed by the same placeholder as the
  column of a mapped key; the field map of \<^verbatim>\<open>Job.update\<close> holds only
  \<open>companyHandle\<close>, so every other key is its own column. The builder is the one
  modelled from the specification.
\<close>

theorem sqlForPartialUpdate_unmapped_key:
  assumes "i < length p"
  shows "\<exists>frs. sqlForPartialUpdate (JObj p) m = Inr \<lparr>setCols = join '', '' frs, values_list = map snd p\<rparr>
           \<and> length frs = length p
           \<and> (m (fst (p ! i)) = None \<longrightarrow>
                 frs ! i = ''\"'' @ fst (p ! i) @ ''\"=$'' @ show_nat (i + 1))
           \<and> (\<forall>col. m (fst (p ! i)) = Some col \<longrightarrow>
                 frs ! i = ''\"'' @ col @ ''\"=$'' @ show_nat (i + 1))
           \<and> (\<forall>key. key \<noteq> ''companyHandle'' \<longrightarrow> job_jsToSql key = None)"
proof (intro exI conjI allI impI)
  from assms have "p \<noteq> []" by auto
  then show "sqlForPartialUpdate (JObj p) m =
      Inr \<lparr>setCols = join '', '' (set_fragments m 1 (map fst p)), values_list = map snd p\<rparr>"
    by (simp add: sqlForPartialUpdate_def)
  show "length (set_fragments m 1 (map fst p)) = length p" by simp
next
  assume "m (fst (p ! i)) = None"
  with assms show "set_fragments m 1 (map fst p) ! i = ''\"'' @ fst (p ! i) @ ''\"=$'' @ show_nat (i + 1)"
    by (simp add: nth_set_fragments set_fragment_def)
next
  fix col assume "m (fst (p ! i)) = Some col"
  with assms show "set_fragments m 1 (map fst p) ! i = ''\"'' @ col @ ''\"=$'' @ show_nat (i + 1)"
    by (simp add: nth_set_fragments set_fragment_def)
next
  fix key :: string assume "key \<noteq> ''companyHandle''"
  then show "job_jsToSql key = None" by (simp add: job_jsToSql_def)
qed

theorem sqlForPartialUpdate_unmapped_key_witness:
  "sqlForPartialUpdate
     (JObj [(''title'', JStr ''New''), (''salary'', JNum 999999), (''equity'', JStr ''0.05'')])
     job_jsToSql =
   Inr \<lparr>setCols = ''\"title\"=$1, \"salary\"=$2, \"equity\"=$3'',
        values_list = [JStr ''New'', JNum 999999, JStr ''0.05'']\<rparr>
   \<and> sqlForPartialUpdate (JObj [(''companyHandle'', JStr ''c2'')]) job_jsToSql =
   Inr \<lparr>setCols = ''\"company_handle\"=$1'', values_list = [JStr ''c2'']\<rparr>"
proof -
  let ?p = "[(''title'', JStr ''New''), (''salary'', JNum 999999), (''equity'', JStr ''0.05'')]"
  let ?q = "[(''companyHandle'', JStr ''c2'')]"
  have unmapped: "job_jsToSql (fst (?p ! 0)) = None"
    by (simp add: job_jsToSql_def)
  have mapped: "job_jsToSql (fst (?q ! 0)) = Some ''company_handle''"
    by (simp add: job_jsToSql_def)
  have ip: "0 < length ?p" and iq: "0 < length ?q" by simp_all
  from sqlForPartialUpdate_unmapped_key [OF ip, of job_jsToSql] unmapped
  obtain fp where "sqlForPartialUpdate (JObj ?p) job_jsToSql =
        Inr \<lparr>setCols = join '', '' fp, values_list = map snd ?p\<rparr>"
      and "length fp = length ?p" and "fp ! 0 = ''\"title\"=$1''"
    by auto
  moreover from sqlForPartialUpdate_unmapped_key [OF iq, of job_jsToSql] mapped
  obtain fq where "sqlForPartialUpdate (JObj ?q) job_jsToSql =
        Inr \<lparr>setCols = join '', '' fq, values_list = map snd ?q\<rparr>"
      and "length fq = length ?q" and "fq ! 0 = ''\"company_handle\"=$1''"
    by auto
  moreover have "fq = [fq ! 0]" if "length fq = length ?q"
    using that by (cases fq) auto
  moreover have "sqlForPartialUpdate (JObj ?p) job_jsToSql =
      Inr \<lparr>setCols = ''\"title\"=$1, \"salary\"=$2, \"equity\"=$3'', values_list = map snd ?p\<rparr>"
    by (simp add: sqlForPartialUpdate_def set_fragment_def job_jsToSql_def)
  ultimately show ?thesis by simp
qed

lemma update_guards_pass:
  assumes "truthy data" "\<not> truthy (get_prop data ''id'')"
    "\<not> truthy (get_prop data ''companyHandle'')"
  shows "update builder db id_arg data =
     (case builder data job_jsToSql of
        Inl e \<Rightarrow> (Inl e, [])
      | Inr clause \<Rightarrow> update_statement db id_arg clause)"
  using assms by (simp add: update_def)

lemma update_statement_effects:
  "snd (update_statement db id_arg clause) =
     [Query (update_sql (setCols clause) (''$'' @ show_nat (length (values_list clause) + 1)))
        (Some (values_list clause @ [id_arg]))]"
  by (simp add: update_statement_def Let_def split: sum.splits)

text \<open>
  C7. Whenever the guards of \<^verbatim>\<open>Job.update\<close> pass and the builder returns a clause,
  the one statement sent to the driver names the id's placeholder \<^verbatim>\<open>$<n + 1>\<close>, where
  \<open>n\<close> is the number of the clause's values, and the bound list is the clause's values
  followed by the id as its last element. This holds for any builder.
\<close>

theorem update_id_placeholder:
  assumes "truthy data" "\<not> truthy (get_prop data ''id'')"
    "\<not> truthy (get_prop data ''companyHandle'')"
    "builder data job_jsToSql = Inr clause"
  shows "\<exists>bound. snd (update builder db id_arg data) =
       [Query
          (''UPDATE jobs \<newline>'' @
           ''                      SET '' @ setCols clause @ '' \<newline>'' @
           ''                      WHERE id = $'' @ show_nat (length (values_list clause) + 1) @ '' \<newline>'' @
           ''                      RETURNING id,\<newline>'' @
           ''                                title,\<newline>'' @
           ''                                salary,\<newline>'' @
           ''                                equity,\<newline>'' @
           ''                                company_handle AS \"companyHandle\"'')
          (Some bound)]
     \<and> bound = values_list clause @ [id_arg]
     \<and> length bound = length (values_list clause) + 1
     \<and> bound ! length (values_list clause) = id_arg
     \<and> take (length (values_list clause)) bound = values_list clause"
proof -
  have "update builder db id_arg data = update_statement db id_arg clause"
    using assms by (simp add: update_guards_pass)
  then show ?thesis
    by (simp add: update_statement_effects update_sql_def)
qed

theorem update_id_placeholder_witness:
  "snd (update sqlForPartialUpdate (\<lambda>sql vs. Inr \<lparr>rows = []\<rparr>) (JNum 69)
          (JObj [(''title'', JStr ''New''), (''salary'', JNum 999999), (''equity'', JStr ''0.05'')])) =
     [Query
        (''UPDATE jobs \<newline>'' @
         ''                      SET \"title\"=$1, \"salary\"=$2, \"equity\"=$3 \<newline>'' @
         ''                      WHERE id = $4 \<newline>'' @
         ''                      RETURNING id,\<newline>'' @
         ''                                title,\<newline>'' @
         ''                                salary,\<newline>'' @
         ''                                equity,\<newline>'' @
         ''                                company_handle AS \"companyHandle\"'')
        (Some [JStr ''New'', JNum 999999, JStr ''0.05'', JNum 69])]"
proof -
  let ?data = "JObj [(''title'', JStr ''New''), (''salary'', JNum 999999), (''equity'', JStr ''0.05'')]"
  let ?clause = "\<lparr>setCols = ''\"title\"=$1, \"salary\"=$2, \"equity\"=$3'',
        values_list = [JStr ''New'', JNum 999999, JStr ''0.05'']\<rparr>"
  have g: "truthy ?data" "\<not> truthy (get_prop ?data ''id'')"
    "\<not> truthy (get_prop ?data ''companyHandle'')"
    by simp_all
  have b: "sqlForPartialUpdate ?data job_jsToSql = Inr ?clause"
    by (simp add: sqlForPartialUpdate_def set_fragment_def job_jsToSql_def)
  have four: "show_nat (length (values_list ?clause) + 1) = ''4''"
    by (simp add: show_nat.simps digit_char_def)
  show ?thesis
    using update_id_placeholder [where builder = sqlForPartialUpdate and data = ?data
        and clause = ?clause and db = "\<lambda>sql vs. Inr \<lparr>rows = []\<rparr>" and id_arg = "JNum 69", OF g b]
    unfolding four by simp
qed

text \<open>
  C9. Whenever the guards pass, the builder returns a clause and the driver answers the
  composed statement with no row, \<^verbatim>\<open>Job.update\<close> raises the NotFound error for the
  id after the statement has been sent; the error is not a BadRequest error.
\<close>

theorem update_not_found:
  assumes "truthy data" "\<not> truthy (get_prop data ''id'')"
    "\<not> truthy (get_prop data ''companyHandle'')"
    "builder data job_jsToSql = Inr clause"
    "db (update_sql (setCols clause) (''$'' @ show_nat (length (values_list clause) + 1)))
        (Some (values_list clause @ [id_arg])) = Inr result"
    "rows result = []"
  shows "update builder db id_arg data =
      (Inl (NotFoundError (''No job with id of '' @ to_string id_arg)),
       [Query (update_sql (setCols clause) (''$'' @ show_nat (length (values_list clause) + 1)))
          (Some (values_list clause @ [id_arg]))])
    \<and> (case fst (update builder db id_arg data) of
          Inl e \<Rightarrow> is_NotFound e \<and> \<not> is_BadRequest e
        | Inr job \<Rightarrow> False)"
proof -
  have "update builder db id_arg data = update_statement db id_arg clause"
    using assms(1-4) by (simp add: update_guards_pass)
  moreover have "update_statement db id_arg clause =
      (Inl (NotFoundError (''No job with id of '' @ to_string id_arg)),
       [Query (update_sql (setCols clause) (''$'' @ show_nat (length (values_list clause) + 1)))
          (Some (values_list clause @ [id_arg]))])"
    using assms(5,6) by (simp add: update_statement_def)
  ultimately show ?thesis by simp
qed

theorem update_not_found_witness:
  "fst (update sqlForPartialUpdate (\<lambda>sql vs. Inr \<lparr>rows = []\<rparr>) (JNum 69)
          (JObj [(''title'', JStr ''New''), (''salary'', JNum 999999), (''equity'', JStr ''0.05'')])) =
     Inl (NotFoundError ''No job with id of 69'')"
proof -
  let ?data = "JObj [(''title'', JStr ''New''), (''salary'', JNum 999999), (''equity'', JStr ''0.05'')]"
  let ?clause = "\<lparr>setCols = ''\"title\"=$1, \"salary\"=$2, \"equity\"=$3'',
        values_list = [JStr ''New'', JNum 999999, JStr ''0.05'']\<rparr>"
  let ?db = "\<lambda>(sql :: string) (vs :: jsval list option). (Inr \<lparr>rows = []\<rparr> :: error + query_result)"
  have g: "truthy ?data" "\<not> truthy (get_prop ?data ''id'')"
    "\<not> truthy (get_prop ?data ''companyHandle'')"
    by simp_all
  have b: "sqlForPartialUpdate ?data job_jsToSql = Inr ?clause"
    by (simp add: sqlForPartialUpdate_def set_fragment_def job_jsToSql_def)
  have d: "?db (update_sql (setCols ?clause) (''$'' @ show_nat (length (values_list ?clause) + 1)))
        (Some (values_list ?clause @ [JNum 69])) = Inr \<lparr>rows = []\<rparr>"
    by simp
  have r: "rows \<lparr>rows = []\<rparr> = []" by simp
  have n69: "show_nat 69 = ''69''"
    by (simp add: show_nat.simps digit_char_def)
  show ?thesis
    using update_not_found [where builder = sqlForPartialUpdate and data = ?data
        and clause = ?clause and db = ?db and id_arg = "JNum 69", OF g b d r]
    by (simp add: n69)
qed

text \<open>
  C10. The guards of \<^verbatim>\<open>Job.update\<close> test truthiness: \<open>null\<close> and \<open>undefined\<close>
  data raise BadRequest with the message \<open>Data is required\<close>; an object raises the
  second BadRequest when its \<open>id\<close> or its \<open>companyHandle\<close> is truthy, and otherwise
  goes on to the builder; the payloads with \<open>id\<close> 0 and with the empty
  \<open>companyHandle\<close> go on to the builder.
\<close>

theorem update_guards_truthiness:
  "update builder db id_arg JNull = (Inl (BadRequestError ''Data is required''), [])
   \<and> update builder db id_arg JUndefined = (Inl (BadRequestError ''Data is required''), [])
   \<and> (truthy (get_prop (JObj kvs) ''id'') \<or> truthy (get_prop (JObj kvs) ''companyHandle'') \<longrightarrow>
        update builder db id_arg (JObj kvs) =
          (Inl (BadRequestError ''Job id and companyHandle can not be changed''), []))
   \<and> (\<not> truthy (get_prop (JObj kvs) ''id'') \<and> \<not> truthy (get_prop (JObj kvs) ''companyHandle'') \<longrightarrow>
        update builder db id_arg (JObj kvs) =
          (case builder (JObj kvs) job_jsToSql of
             Inl e \<Rightarrow> (Inl e, [])
           | Inr clause \<Rightarrow> update_statement db id_arg clause))
   \<and> update builder db id_arg (JObj [(''id'', JNum 0)]) =
        (case builder (JObj [(''id'', JNum 0)]) job_jsToSql of
           Inl e \<Rightarrow> (Inl e, [])
         | Inr clause \<Rightarrow> update_statement db id_arg clause)
   \<and> update builder db id_arg (JObj [(''companyHandle'', JStr [])]) =
        (case builder (JObj [(''companyHandle'', JStr [])]) job_jsToSql of
           Inl e \<Rightarrow> (Inl e, [])
         | Inr clause \<Rightarrow> update_statement db id_arg clause)"
  by (simp add: update_def)

theorem update_guards_truthiness_witness:
  "update sqlForPartialUpdate (\<lambda>sql vs. Inr \<lparr>rows = []\<rparr>) (JNum 1) (JObj [(''id'', JNum 2)]) =
     (Inl (BadRequestError ''Job id and companyHandle can not be changed''), [])
   \<and> snd (update sqlForPartialUpdate (\<lambda>sql vs. Inr \<lparr>rows = []\<rparr>) (JNum 1) (JObj [(''id'', JNum 0)])) =
     [Query
        (''UPDATE jobs \<newline>'' @
         ''                      SET \"id\"=$1 \<newline>'' @
         ''                      WHERE id = $2 \<newline>'' @
         ''                      RETURNING id,\<newline>'' @
         ''                                title,\<newline>'' @
         ''                                salary,\<newline>'' @
         ''                                equity,\<newline>'' @
         ''                                company_handle AS \"companyHandle\"'')
        (Some [JNum 0, JNum 1])]
   \<and> snd (update sqlForPartialUpdate (\<lambda>sql vs. Inr \<lparr>rows = []\<rparr>) (JNum 1)
            (JObj [(''companyHandle'', JStr [])])) =
     [Query
        (''UPDATE jobs \<newline>'' @
         ''                      SET \"company_handle\"=$1 \<newline>'' @
         ''                      WHERE id = $2 \<newline>'' @
         ''                      RETURNING id,\<newline>'' @
         ''                                title,\<newline>'' @
         ''                                salary,\<newline>'' @
         ''                                equity,\<newline>'' @
         ''                                company_handle AS \"companyHandle\"'')
        (Some [JStr [], JNum 1])]"
proof -
  let ?db = "\<lambda>(sql :: string) (vs :: jsval list option). (Inr \<lparr>rows = []\<rparr> :: error + query_result)"
  have b0: "sqlForPartialUpdate (JObj [(''id'', JNum 0)]) job_jsToSql =
      Inr \<lparr>setCols = ''\"id\"=$1'', values_list = [JNum 0]\<rparr>"
    by (simp add: sqlForPartialUpdate_def set_fragment_def job_jsToSql_def)
  have b1: "sqlForPartialUpdate (JObj [(''companyHandle'', JStr [])]) job_jsToSql =
      Inr \<lparr>setCols = ''\"company_handle\"=$1'', values_list = [JStr []]\<rparr>"
    by (simp add: sqlForPartialUpdate_def set_fragment_def job_jsToSql_def)
  show ?thesis
    using update_guards_truthiness [of sqlForPartialUpdate ?db "JNum 1" "[(''id'', JNum 2)]"]
      update_guards_truthiness [of sqlForPartialUpdate ?db "JNum 1" "[(''id'', JNum 0)]"]
    by (simp add: b0 b1 update_statement_effects update_sql_def)
qed

end
